theory Spec2Isabelle
  imports Complex_Main
begin

section \<open>Backend values, faults and effects\<close>

text \<open>
  The dashboard keeps no durable state of its own: every handler reads and writes the hosted
  document store and the identity provider through their client SDK. The SDK calls are the
  effects of a handler; what the backend answers is an input of the model, so that every
  outcome of a call (a reply or a rejected promise) is a case of the handler. A handler
  returns the component state it leaves and the calls it issued, in order. Console logging,
  the identifiers of toasts and the styling of the pages are left out.
\<close>

datatype jsnum = NaN | Num real

datatype fval =
    VNull
  | VStr string
  | VBool bool
  | VNumber jsnum
  | VTime nat
  | VList "string list"

type_synonym document = "string \<rightharpoonup> fval"

text \<open>A rejected promise carries an object whose \<open>code\<close> and \<open>message\<close> may be absent.\<close>

record fault =
  code :: "string option"
  message :: "string option"

datatype timer = ClearAssignmentMessage | RemoveToast

datatype effect =
    UpdateDoc string string "(string \<times> fval) list"
  | AddDoc string "(string \<times> fval) list"
  | GetDoc string string
  | GetDocs string
  | SignIn string string
  | SignOut
  | RouterPush string
  | SetTimeout timer nat

text \<open>
  \<open>updateDoc\<close> of the store's SDK overwrites the fields it is given and keeps every
  other field of the stored document.
\<close>

definition updateDoc :: "document \<Rightarrow> (string \<times> fval) list \<Rightarrow> document" where
  "updateDoc d fs = d ++ map_of fs"

text \<open>JavaScript truthiness of a \<open>string | null\<close> value: null and the empty string are falsy.\<close>

fun truthy :: "string option \<Rightarrow> bool" where
  "truthy None = False"
| "truthy (Some v) = (v \<noteq> [])"

section \<open>Booking detail page: the assignment workflow\<close>

record BookingData =
  serviceId :: string
  technicianId :: "string option"
  status :: string
  customerName :: string
  customerPhone :: string
  customerAddress :: string
  createdAt :: nat
  scheduledAt :: nat
  bnotes :: "string option"

record ServiceData =
  sd_title :: "string option"
  sd_name :: "string option"
  sd_category :: "string option"
  sd_price :: jsnum
  sd_duration :: jsnum

record TechnicianData =
  td_name :: string
  td_phone :: string
  td_email :: string
  td_skills :: "string list"

record ActiveTechnician =
  at_id :: string
  at_name :: string
  at_skills :: "string list"

datatype message_type = success | error

record AssignmentMessage =
  m_type :: message_type
  m_text :: string

text \<open>The component's state: one field for each \<open>useState\<close> hook, and the route parameter.\<close>

record page =
  bookingId :: string
  booking :: "BookingData option"
  service :: "ServiceData option"
  technician :: "TechnicianData option"
  activeTechnicians :: "ActiveTechnician list"
  selectedTechnicianId :: string
  loading :: bool
  perror :: "string option"
  isAssigning :: bool
  assignmentMessage :: "AssignmentMessage option"
  showConfirmDialog :: bool

definition bookingAssigned :: "page \<Rightarrow> bool" where
  "bookingAssigned s = (case booking s of None \<Rightarrow> False | Some b \<Rightarrow> truthy (technicianId b))"

definition handleAssignClick :: "page \<Rightarrow> page" where
  "handleAssignClick s =
     (if selectedTechnicianId s = [] \<or> booking s = None \<or> bookingAssigned s \<or> isAssigning s
      then s
      else s\<lparr>showConfirmDialog := True\<rparr>)"

text \<open>
  \<open>handleAssign\<close> is an async function. What it read from the render it was created in (the
  booking, the staged selection, the technician found in the directory) stays fixed over
  its awaits: that is the closure.
\<close>

record closure =
  c_booking :: BookingData
  c_selectedTechnicianId :: string
  c_selectedTechnician :: "ActiveTechnician option"

definition assignFields :: "string \<Rightarrow> (string \<times> fval) list" where
  "assignFields tid = [(''technicianId'', VStr tid), (''status'', VStr ''assigned'')]"

text \<open>
  The synchronous part, up to the first await: the guard, the single-flight flag, the
  optimistic update and the write. \<open>None\<close> is the early return of the guard.
\<close>

definition handleAssign_enter :: "page \<Rightarrow> (page \<times> closure \<times> effect) option" where
  "handleAssign_enter s =
     (case booking s of
        None \<Rightarrow> None
      | Some b \<Rightarrow>
          if selectedTechnicianId s = [] \<or> truthy (technicianId b) then None
          else
            let sel = selectedTechnicianId s;
                selectedTechnician = find (\<lambda>t. at_id t = sel) (activeTechnicians s);
                s1 = s\<lparr>isAssigning := True, assignmentMessage := None, showConfirmDialog := False,
                       booking := Some (b\<lparr>technicianId := Some sel, status := ''assigned''\<rparr>)\<rparr>
            in Some (s1,
                     \<lparr>c_booking = b, c_selectedTechnicianId = sel,
                      c_selectedTechnician = selectedTechnician\<rparr>,
                     UpdateDoc ''bookings'' (bookingId s) (assignFields sel)))"

definition assignErrorMessage :: "fault \<Rightarrow> string" where
  "assignErrorMessage e =
     (if code e = Some ''permission-denied''
        then ''Permission denied. Please check your access rights.''
      else if code e = Some ''unavailable''
        then ''Service temporarily unavailable. Please try again later.''
      else (case message e of
              None \<Rightarrow> ''Failed to assign technician. Please try again.''
            | Some m \<Rightarrow>
                if m = [] then ''Failed to assign technician. Please try again.''
                else ''Error: '' @ m))"

definition handleAssign_finally :: "page \<Rightarrow> page" where
  "handleAssign_finally s = s\<lparr>isAssigning := False\<rparr>"

text \<open>The catch block: the rollback, from the booking of the closure.\<close>

definition handleAssign_catch :: "closure \<Rightarrow> fault \<Rightarrow> page \<Rightarrow> page \<times> effect list" where
  "handleAssign_catch c e s =
     (let b = c_booking c
      in (s\<lparr>booking := Some (b\<lparr>technicianId := None, status := status b\<rparr>),
            technician := None,
            assignmentMessage := Some \<lparr>m_type = error, m_text = assignErrorMessage e\<rparr>\<rparr>,
          [SetTimeout ClearAssignmentMessage 5000]))"

text \<open>The rest of the try block, once the technician's document has been fetched.\<close>

definition handleAssign_assigned ::
  "closure \<Rightarrow> TechnicianData option \<Rightarrow> page \<Rightarrow> page \<times> effect list" where
  "handleAssign_assigned c technicianDoc s =
     (let s1 = (case technicianDoc of None \<Rightarrow> s | Some d \<Rightarrow> s\<lparr>technician := Some d\<rparr>);
          tname = (case c_selectedTechnician c of None \<Rightarrow> [] | Some t \<Rightarrow> at_name t)
      in (s1\<lparr>selectedTechnicianId := [],
             assignmentMessage :=
               Some \<lparr>m_type = success,
                     m_text = ''Technician '' @ tname @ '' assigned successfully.''\<rparr>\<rparr>,
          [SetTimeout ClearAssignmentMessage 3000]))"

text \<open>Resuming after \<open>await updateDoc\<close>: a reply goes on to the fetch, a fault to the catch.\<close>

definition handleAssign_updated ::
  "closure \<Rightarrow> fault + unit \<Rightarrow> page \<Rightarrow> (page \<times> effect list) \<times> bool" where
  "handleAssign_updated c r s =
     (case r of
        Inl e \<Rightarrow>
          (let (s1, es) = handleAssign_catch c e s in ((handleAssign_finally s1, es), False))
      | Inr _ \<Rightarrow> ((s, [GetDoc ''technicians'' (c_selectedTechnicianId c)]), True))"

text \<open>Resuming after \<open>await getDoc\<close>.\<close>

definition handleAssign_fetched ::
  "closure \<Rightarrow> fault + TechnicianData option \<Rightarrow> page \<Rightarrow> page \<times> effect list" where
  "handleAssign_fetched c r s =
     (let (s1, es) = (case r of
                        Inl e \<Rightarrow> handleAssign_catch c e s
                      | Inr technicianDoc \<Rightarrow> handleAssign_assigned c technicianDoc s)
      in (handleAssign_finally s1, es))"

text \<open>
  One whole run of the handler, with the backend's two answers given: the answer to the
  write, and the answer to the fetch (read only when the write succeeded).
\<close>

definition handleAssign ::
  "page \<Rightarrow> fault + unit \<Rightarrow> fault + TechnicianData option \<Rightarrow> page \<times> effect list" where
  "handleAssign s upd fetched =
     (case handleAssign_enter s of
        None \<Rightarrow> (s, [])
      | Some (s1, c, w) \<Rightarrow>
          (case handleAssign_updated c upd s1 of
             ((s2, es), False) \<Rightarrow> (s2, w # es)
           | ((s2, es), True) \<Rightarrow>
               (let (s3, es') = handleAssign_fetched c fetched s2 in (s3, w # es @ es'))))"

section \<open>Booking detail page: what the operator can do\<close>

text \<open>
  The page shows its main view once loading is over, no load error is set and the booking
  is there. The assignment section (selector and Assign button) is rendered while the
  booking has no technician; the confirmation dialog while \<open>showConfirmDialog\<close> holds.
\<close>

definition mainRendered :: "page \<Rightarrow> bool" where
  "mainRendered s = (\<not> loading s \<and> \<not> truthy (perror s) \<and> booking s \<noteq> None)"

definition assignSectionRendered :: "page \<Rightarrow> bool" where
  "assignSectionRendered s = (mainRendered s \<and> \<not> bookingAssigned s)"

definition confirmDialogRendered :: "page \<Rightarrow> bool" where
  "confirmDialogRendered s = (mainRendered s \<and> showConfirmDialog s)"

datatype uevent =
    SelectTechnician string
  | ClickAssign
  | ClickConfirm
  | ClickCancel
  | ClickBackdrop

text \<open>
  An event reaches its handler when its element is rendered and not disabled. The selector
  is disabled while \<open>isAssigning\<close>, the Assign button while nothing is selected or
  \<open>isAssigning\<close>, the dialog's two buttons while \<open>isAssigning\<close>. The result is the new
  state and the backend calls issued before the handler first suspends.
\<close>

fun dispatch :: "page \<Rightarrow> uevent \<Rightarrow> page \<times> effect list" where
  "dispatch s (SelectTechnician v) =
     (if assignSectionRendered s \<and> \<not> isAssigning s
      then (s\<lparr>selectedTechnicianId := v\<rparr>, []) else (s, []))"
| "dispatch s ClickAssign =
     (if assignSectionRendered s \<and> \<not> (selectedTechnicianId s = [] \<or> isAssigning s)
      then (handleAssignClick s, []) else (s, []))"
| "dispatch s ClickConfirm =
     (if confirmDialogRendered s \<and> \<not> isAssigning s
      then (case handleAssign_enter s of
              None \<Rightarrow> (s, [])
            | Some (s1, c, w) \<Rightarrow> (s1, [w]))
      else (s, []))"
| "dispatch s ClickCancel =
     (if confirmDialogRendered s \<and> \<not> isAssigning s
      then (s\<lparr>showConfirmDialog := False\<rparr>, []) else (s, []))"
| "dispatch s ClickBackdrop =
     (if confirmDialogRendered s
      then ((if \<not> isAssigning s then s\<lparr>showConfirmDialog := False\<rparr> else s), [])
      else (s, []))"

fun run_user :: "page \<Rightarrow> uevent list \<Rightarrow> page \<times> effect list" where
  "run_user s [] = (s, [])"
| "run_user s (e # es) =
     (let (s1, out1) = dispatch s e;
          (s2, out2) = run_user s1 es
      in (s2, out1 @ out2))"

fun isWrite :: "effect \<Rightarrow> bool" where
  "isWrite (UpdateDoc c i fs) = True"
| "isWrite (AddDoc c fs) = True"
| "isWrite _ = False"

section \<open>Role-gated session guard\<close>

text \<open>The three state hooks of \<open>DashboardLayout\<close> that decide what is rendered.\<close>

record guard =
  g_loading :: bool
  isAuthorized :: bool
  authChecked :: bool

definition guard_init :: guard where
  "guard_init = \<lparr>g_loading = True, isAuthorized = False, authChecked = False\<rparr>"

definition isAdmin :: "document \<Rightarrow> bool" where
  "isAdmin userData = (userData ''role'' = Some (VStr ''admin''))"

definition checked_redirect :: "guard \<Rightarrow> guard" where
  "checked_redirect g = g\<lparr>authChecked := True, g_loading := False\<rparr>"

text \<open>
  The callback given to \<open>onAuthStateChanged\<close>, run once for each notification.
  \<open>mounted\<close> is the \<open>isMounted\<close> flag when the callback starts, \<open>mounted'\<close> when it
  resumes after the profile fetch; \<open>user\<close> is the session's subject id, if there is a
  session; \<open>fetched\<close> is the outcome of the profile fetch.
\<close>

definition authCallback ::
  "guard \<Rightarrow> bool \<Rightarrow> string option \<Rightarrow> fault + document option \<Rightarrow> bool \<Rightarrow> guard \<times> effect list" where
  "authCallback g mounted user fetched mounted' =
     (if \<not> mounted then (g, [])
      else
        let g1 = g\<lparr>g_loading := True, authChecked := False\<rparr>
        in case user of
             None \<Rightarrow> (checked_redirect g1, [RouterPush ''/login''])
           | Some uid \<Rightarrow>
               (case fetched of
                  Inl e \<Rightarrow>
                    if mounted'
                    then (checked_redirect g1, [GetDoc ''users'' uid, RouterPush ''/login''])
                    else (g1, [GetDoc ''users'' uid])
                | Inr userDoc \<Rightarrow>
                    if \<not> mounted' then (g1, [GetDoc ''users'' uid])
                    else
                      (case userDoc of
                         None \<Rightarrow>
                           (checked_redirect g1, [GetDoc ''users'' uid, RouterPush ''/login''])
                       | Some userData \<Rightarrow>
                           if \<not> isAdmin userData
                           then (checked_redirect g1,
                                 [GetDoc ''users'' uid, RouterPush ''/login''])
                           else (g1\<lparr>isAuthorized := True, authChecked := True,
                                     g_loading := False\<rparr>,
                                 [GetDoc ''users'' uid]))))"

definition rendersChildren :: "guard \<Rightarrow> bool" where
  "rendersChildren g = (\<not> (g_loading g \<or> \<not> authChecked g \<or> \<not> isAuthorized g))"

text \<open>The guard of a mounted layout over a sequence of session notifications.\<close>

fun runGuard :: "guard \<Rightarrow> (string option \<times> (fault + document option)) list \<Rightarrow> guard" where
  "runGuard g [] = g"
| "runGuard g ((user, fetched) # ns) =
     runGuard (fst (authCallback g True user fetched True)) ns"

section \<open>Login page\<close>

record login_page =
  email :: string
  password :: string
  lp_loading :: bool
  lp_error :: "string option"

text \<open>The catch block of the login form: from the fault to the message shown.\<close>

definition loginErrorMessage :: "fault \<Rightarrow> string" where
  "loginErrorMessage e =
     (if code e = Some ''auth/user-not-found''
        then ''No account found with this email address.''
      else if code e = Some ''auth/wrong-password''
        then ''Incorrect password. Please try again.''
      else if code e = Some ''auth/invalid-email''
        then ''Invalid email address.''
      else if code e = Some ''auth/user-disabled''
        then ''This account has been disabled.''
      else if code e = Some ''auth/too-many-requests''
        then ''Too many failed attempts. Please try again later.''
      else (case message e of
              None \<Rightarrow> ''Failed to sign in. Please try again.''
            | Some m \<Rightarrow> if m = [] then ''Failed to sign in. Please try again.'' else m))"

definition login_catch :: "fault \<Rightarrow> login_page \<Rightarrow> login_page" where
  "login_catch e s = s\<lparr>lp_error := Some (loginErrorMessage e)\<rparr>"

text \<open>
  After a profile that is missing or not an admin's: sign out, then the access-denied
  message; a fault of the sign-out itself goes to the catch block.
\<close>

definition login_deny :: "string \<Rightarrow> fault + unit \<Rightarrow> login_page \<Rightarrow> login_page" where
  "login_deny msg signedOut s =
     (case signedOut of
        Inl e \<Rightarrow> login_catch e s
      | Inr _ \<Rightarrow> s\<lparr>lp_error := Some msg\<rparr>)"

text \<open>
  \<open>handleSubmit\<close> of the login form, with the outcomes of its three awaited calls:
  the sign-in (the subject id), the profile fetch, and the sign-out.
\<close>

definition LoginPage_handleSubmit ::
  "login_page \<Rightarrow> fault + string \<Rightarrow> fault + document option \<Rightarrow> fault + unit
     \<Rightarrow> login_page \<times> effect list" where
  "LoginPage_handleSubmit s signedIn fetched signedOut =
     (let s0 = s\<lparr>lp_error := None\<rparr>
      in if email s = [] \<or> password s = []
         then (s0\<lparr>lp_error := Some ''Please enter both email and password''\<rparr>, [])
         else
           let s1 = s0\<lparr>lp_loading := True\<rparr>;
               call = SignIn (email s) (password s);
               (s2, es) =
                 (case signedIn of
                    Inl e \<Rightarrow> (login_catch e s1, [call])
                  | Inr uid \<Rightarrow>
                      (case fetched of
                         Inl e \<Rightarrow> (login_catch e s1, [call, GetDoc ''users'' uid])
                       | Inr None \<Rightarrow>
                           (login_deny ''Access denied. User account not found.'' signedOut s1,
                            [call, GetDoc ''users'' uid, SignOut])
                       | Inr (Some userData) \<Rightarrow>
                           if \<not> isAdmin userData
                           then (login_deny ''Access denied. Admin privileges required.''
                                   signedOut s1,
                                 [call, GetDoc ''users'' uid, SignOut])
                           else (s1, [call, GetDoc ''users'' uid, RouterPush ''/dashboard''])))
           in (s2\<lparr>lp_loading := False\<rparr>, es))"

section \<open>Services page\<close>

record Service =
  svc_id :: string
  svc_title :: string
  svc_category :: string
  svc_price :: jsnum
  svc_duration :: jsnum
  svc_isActive :: bool

record FormData =
  title :: string
  category :: string
  price :: string
  duration :: string

record services_page =
  services :: "Service list"
  sp_loading :: bool
  isModalOpen :: bool
  isSubmitting :: bool
  editingServiceId :: "string option"
  sp_error :: "string option"
  toasts :: "(string \<times> message_type) list"
  formData :: FormData

text \<open>\<open>x <= 0\<close> on JavaScript numbers: false for NaN.\<close>

fun le0 :: "jsnum \<Rightarrow> bool" where
  "le0 NaN = False"
| "le0 (Num r) = (r \<le> 0)"

text \<open>\<open>String.prototype.trim\<close>, on the ASCII white space.\<close>

definition isSpace :: "char \<Rightarrow> bool" where
  "isSpace ch = (ch \<in> set [CHR '' '', CHR 0x09, CHR 0x0A, CHR 0x0B, CHR 0x0C, CHR 0x0D])"

definition trim :: "string \<Rightarrow> string" where
  "trim x = rev (dropWhile isSpace (rev (dropWhile isSpace x)))"

definition emptyForm :: FormData where
  "emptyForm = \<lparr>title = [], category = [], price = [], duration = []\<rparr>"

definition showToast :: "string \<Rightarrow> message_type \<Rightarrow> services_page \<Rightarrow> services_page \<times> effect list" where
  "showToast msg ty s = (s\<lparr>toasts := toasts s @ [(msg, ty)]\<rparr>, [SetTimeout RemoveToast 3000])"

definition handleCloseModal :: "services_page \<Rightarrow> services_page" where
  "handleCloseModal s =
     s\<lparr>isModalOpen := False, editingServiceId := None, sp_error := None, formData := emptyForm\<rparr>"

text \<open>
  \<open>fetchServices\<close> never throws: a fault of the listing is logged and the list is kept.
  The reply is the listing already mapped to \<open>Service\<close> values; \<open>sp_loading\<close>, set
  while the listing is awaited, is cleared in its \<open>finally\<close>.
\<close>

definition fetchServices :: "fault + Service list \<Rightarrow> services_page \<Rightarrow> services_page \<times> effect list" where
  "fetchServices listed s =
     (case listed of
        Inl e \<Rightarrow> (s\<lparr>sp_loading := False\<rparr>, [GetDocs ''services''])
      | Inr servicesData \<Rightarrow>
          (s\<lparr>services := servicesData, sp_loading := False\<rparr>, [GetDocs ''services'']))"

definition serviceData ::
  "(string \<Rightarrow> jsnum) \<Rightarrow> (string \<Rightarrow> jsnum) \<Rightarrow> FormData \<Rightarrow> (string \<times> fval) list" where
  "serviceData parseFloat parseInt fd =
     [(''title'', VStr (trim (title fd))),
      (''category'', VStr (trim (category fd))),
      (''price'', VNumber (parseFloat (price fd))),
      (''duration'', VNumber (parseInt (duration fd)))]"

text \<open>The optimistic update of the list: the four form fields spread over the edited entry.\<close>

definition applyServiceData ::
  "(string \<Rightarrow> jsnum) \<Rightarrow> (string \<Rightarrow> jsnum) \<Rightarrow> FormData \<Rightarrow> string \<Rightarrow> Service \<Rightarrow> Service" where
  "applyServiceData parseFloat parseInt fd eid sv =
     (if svc_id sv = eid
      then sv\<lparr>svc_title := trim (title fd), svc_category := trim (category fd),
              svc_price := parseFloat (price fd), svc_duration := parseInt (duration fd)\<rparr>
      else sv)"

text \<open>
  \<open>handleSubmit\<close> of the service form. \<open>parseFloat\<close> and \<open>parseInt\<close> are the language's
  parsers, \<open>now\<close> is \<open>Timestamp.now()\<close>, \<open>written\<close> is the outcome of the write and
  \<open>listed\<close> the outcome of the listing that \<open>fetchServices\<close> awaits.
\<close>

definition ServicesPage_handleSubmit ::
  "(string \<Rightarrow> jsnum) \<Rightarrow> (string \<Rightarrow> jsnum) \<Rightarrow> nat \<Rightarrow> services_page \<Rightarrow> fault + unit
     \<Rightarrow> fault + Service list \<Rightarrow> services_page \<times> effect list" where
  "ServicesPage_handleSubmit parseFloat parseInt now s written listed =
     (let s0 = s\<lparr>sp_error := None\<rparr>; fd = formData s
      in if trim (title fd) = []
           then (s0\<lparr>sp_error := Some ''Service title is required''\<rparr>, [])
         else if price fd = [] \<or> le0 (parseFloat (price fd))
           then (s0\<lparr>sp_error := Some ''Price must be greater than 0''\<rparr>, [])
         else if duration fd = [] \<or> le0 (parseInt (duration fd))
           then (s0\<lparr>sp_error := Some ''Duration must be greater than 0''\<rparr>, [])
         else
           let s1 = s0\<lparr>isSubmitting := True\<rparr>;
               sdata = serviceData parseFloat parseInt fd;
               (s2, es) =
                 (if truthy (editingServiceId s)
                  then
                    (let eid = the (editingServiceId s);
                         s2 = s1\<lparr>services :=
                                   map (applyServiceData parseFloat parseInt fd eid) (services s1)\<rparr>;
                         w = UpdateDoc ''services'' eid sdata
                     in case written of
                          Inr _ \<Rightarrow>
                            (let (s3, ts) = showToast ''Service updated successfully'' success s2
                             in (handleCloseModal s3, w # ts))
                        | Inl e \<Rightarrow>
                            (let s3 = s2\<lparr>sp_error :=
                                          Some ''Failed to update service. Please try again.''\<rparr>;
                                 (s4, fs) = fetchServices listed s3
                             in (s4, w # fs)))
                  else
                    (let w = AddDoc ''services''
                               (sdata @ [(''isActive'', VBool True), (''createdAt'', VTime now)])
                     in case written of
                          Inr _ \<Rightarrow>
                            (let (s3, fs) = fetchServices listed s1;
                                 (s4, ts) = showToast ''Service added successfully'' success s3
                             in (handleCloseModal s4, w # fs @ ts))
                        | Inl e \<Rightarrow>
                            (s1\<lparr>sp_error :=
                                  Some ''Failed to create service. Please try again.''\<rparr>, [w])))
           in (s2\<lparr>isSubmitting := False\<rparr>, es))"

section \<open>Fault classes named by the specification\<close>

text \<open>An authorization fault: the profile document is missing, or its role is not admin.\<close>

definition authorizationFault :: "document option \<Rightarrow> bool" where
  "authorizationFault userDoc =
     (case userDoc of None \<Rightarrow> True | Some userData \<Rightarrow> \<not> isAdmin userData)"

text \<open>The five fault codes that the login form maps to a message of its own.\<close>

definition mappedCodes :: "string list" where
  "mappedCodes = [''auth/user-not-found'', ''auth/wrong-password'', ''auth/invalid-email'',
                  ''auth/user-disabled'', ''auth/too-many-requests'']"

section \<open>Example states\<close>

definition booking0 :: BookingData where
  "booking0 =
     \<lparr>serviceId = ''s1'', technicianId = None, status = ''pending'',
      customerName = ''Ravi'', customerPhone = ''555-0100'', customerAddress = ''12 Hill Road'',
      createdAt = 1000, scheduledAt = 2000, bnotes = None\<rparr>"

definition tech1 :: ActiveTechnician where
  "tech1 = \<lparr>at_id = ''t1'', at_name = ''Asha'', at_skills = [''plumbing'']\<rparr>"

definition tech1_doc :: TechnicianData where
  "tech1_doc =
     \<lparr>td_name = ''Asha'', td_phone = ''555-0111'', td_email = ''asha@example.org'',
      td_skills = [''plumbing'']\<rparr>"

text \<open>A loaded page with an unassigned booking and nothing staged.\<close>

definition page0 :: page where
  "page0 =
     \<lparr>bookingId = ''b1'', booking = Some booking0, service = None, technician = None,
      activeTechnicians = [tech1], selectedTechnicianId = [], loading = False, perror = None,
      isAssigning = False, assignmentMessage = None, showConfirmDialog = False\<rparr>"

text \<open>The same page with technician \<open>t1\<close> staged and the confirmation dialog open.\<close>

definition page1 :: page where
  "page1 = page0\<lparr>selectedTechnicianId := ''t1'', showConfirmDialog := True\<rparr>"

definition unavailable :: fault where
  "unavailable = \<lparr>code = Some ''unavailable'', message = None\<rparr>"

definition network_failed :: fault where
  "network_failed =
     \<lparr>code = Some ''auth/network-request-failed'',
      message = Some ''Firebase: Error (auth/network-request-failed).''\<rparr>"

definition admin_profile :: document where
  "admin_profile = [''role'' \<mapsto> VStr ''admin'', ''email'' \<mapsto> VStr ''admin@admin.com'']"

definition customer_profile :: document where
  "customer_profile = [''role'' \<mapsto> VStr ''customer'', ''email'' \<mapsto> VStr ''c@example.org'']"

definition login0 :: login_page where
  "login0 = \<lparr>email = ''c@example.org'', password = ''secret'', lp_loading = False, lp_error = None\<rparr>"

text \<open>A disabled service, open in the edit form with a changed price and duration.\<close>

definition service1 :: Service where
  "service1 =
     \<lparr>svc_id = ''sv1'', svc_title = ''Tap repair'', svc_category = ''plumbing'',
      svc_price = Num 200, svc_duration = Num 30, svc_isActive = False\<rparr>"

definition services_page0 :: services_page where
  "services_page0 =
     \<lparr>services = [service1], sp_loading = False, isModalOpen = True, isSubmitting = False,
      editingServiceId = Some ''sv1'', sp_error = None, toasts = [],
      formData = \<lparr>title = ''Tap repair '', category = ''plumbing'', price = ''250'',
                  duration = ''45''\<rparr>\<rparr>"

text \<open>What the parsers return on the two numbers of that form.\<close>

definition parse0 :: "string \<Rightarrow> jsnum" where
  "parse0 x = (if x = ''250'' then Num 250 else if x = ''45'' then Num 45 else NaN)"

section \<open>Properties of the assignment handler\<close>

lemma handleAssign_enter_unassigned:
  assumes "booking s = Some b" and "\<not> truthy (technicianId b)"
    and "selectedTechnicianId s \<noteq> []"
  shows "handleAssign_enter s =
           Some (s\<lparr>isAssigning := True, assignmentMessage := None, showConfirmDialog := False,
                   booking := Some (b\<lparr>technicianId := Some (selectedTechnicianId s),
                                     status := ''assigned''\<rparr>)\<rparr>,
                 \<lparr>c_booking = b, c_selectedTechnicianId = selectedTechnicianId s,
                  c_selectedTechnician =
                    find (\<lambda>t. at_id t = selectedTechnicianId s) (activeTechnicians s)\<rparr>,
                 UpdateDoc ''bookings'' (bookingId s)
                   [(''technicianId'', VStr (selectedTechnicianId s)),
                    (''status'', VStr ''assigned'')])"
  using assms by (simp add: handleAssign_enter_def assignFields_def Let_def)

lemma handleAssign_enter_Some:
  assumes "handleAssign_enter s = Some (s1, c, w)"
  shows "\<exists>b. booking s = Some b \<and> \<not> truthy (technicianId b) \<and> selectedTechnicianId s \<noteq> []"
  using assms by (auto simp: handleAssign_enter_def split: option.splits if_splits)

lemma handleAssign_enter_flag:
  "handleAssign_enter s = Some (s1, c, w) \<Longrightarrow> isAssigning s1 \<and> isWrite w"
  by (auto simp: handleAssign_enter_def Let_def split: option.splits if_splits)

lemma handleAssign_completion_flag:
  "\<not> isAssigning (fst (handleAssign_fetched c r s))"
  "\<not> isAssigning (fst (fst (handleAssign_updated c (Inl e) s)))"
  by (auto simp: handleAssign_fetched_def handleAssign_updated_def handleAssign_finally_def
      handleAssign_catch_def handleAssign_assigned_def Let_def
      split: sum.splits option.splits prod.splits)

lemma page1_enter:
  "handleAssign_enter page1 =
     Some (page1\<lparr>isAssigning := True, showConfirmDialog := False,
                 booking := Some (booking0\<lparr>technicianId := Some ''t1'', status := ''assigned''\<rparr>)\<rparr>,
           \<lparr>c_booking = booking0, c_selectedTechnicianId = ''t1'',
            c_selectedTechnician = Some tech1\<rparr>,
           UpdateDoc ''bookings'' ''b1''
             [(''technicianId'', VStr ''t1''), (''status'', VStr ''assigned'')])"
  by (simp add: handleAssign_enter_def assignFields_def page1_def page0_def booking0_def
      tech1_def Let_def)

text \<open>
  When the write succeeds and the fetch of the technician's document returns (with the
  document or without one), the page converges to the assignment: the booking carries the
  selected technician and the status assigned, the detail view is the fetched record, the
  selection is cleared and the success message names the technician.
\<close>

lemma assign_success_when_fetched:
  assumes "booking s = Some b" and "technicianId b = None"
    and "find (\<lambda>t. at_id t = selectedTechnicianId s) (activeTechnicians s) = Some T"
    and "selectedTechnicianId s \<noteq> []"
  shows "handleAssign s (Inr ()) (Inr d) =
           (s\<lparr>isAssigning := False,
               assignmentMessage :=
                 Some \<lparr>m_type = success,
                       m_text = ''Technician '' @ at_name T @ '' assigned successfully.''\<rparr>,
               showConfirmDialog := False,
               booking := Some (b\<lparr>technicianId := Some (at_id T), status := ''assigned''\<rparr>),
               technician := (case d of None \<Rightarrow> technician s | Some r \<Rightarrow> Some r),
               selectedTechnicianId := []\<rparr>,
            [UpdateDoc ''bookings'' (bookingId s)
               [(''technicianId'', VStr (at_id T)), (''status'', VStr ''assigned'')],
             GetDoc ''technicians'' (at_id T),
             SetTimeout ClearAssignmentMessage 3000])"
proof -
  have nt: "\<not> truthy (technicianId b)"
    using assms(2) by simp
  have T: "at_id T = selectedTechnicianId s"
    using assms(3) by (auto simp: find_Some_iff)
  show ?thesis
    using assms(3)
    by (cases d)
      (simp_all add: handleAssign_def handleAssign_enter_unassigned [OF assms(1) nt assms(4)]
        handleAssign_updated_def handleAssign_fetched_def handleAssign_assigned_def
        handleAssign_finally_def T Let_def)
qed

text \<open>
  Claim C1. The write succeeds, then the fetch of the technician's document faults: the
  handler's one catch block takes the fault for a failed assignment. On the page of the
  example, with technician \<open>t1\<close> staged and confirmed, the write of \<open>t1\<close> is issued and
  acknowledged, and the handler ends with the local booking rolled back to no technician
  and status pending, the selection still staged and an error message shown.
\<close>

theorem assign_rollback_after_write:
  "handleAssign page1 (Inr ()) (Inl unavailable) =
     (page1\<lparr>showConfirmDialog := False,
            assignmentMessage :=
              Some \<lparr>m_type = error,
                    m_text = ''Service temporarily unavailable. Please try again later.''\<rparr>\<rparr>,
      [UpdateDoc ''bookings'' ''b1''
         [(''technicianId'', VStr ''t1''), (''status'', VStr ''assigned'')],
       GetDoc ''technicians'' ''t1'',
       SetTimeout ClearAssignmentMessage 5000])
   \<and> map_option technicianId (booking (fst (handleAssign page1 (Inr ()) (Inl unavailable))))
       = Some None
   \<and> map_option status (booking (fst (handleAssign page1 (Inr ()) (Inl unavailable))))
       = Some ''pending''"
proof -
  have run: "handleAssign page1 (Inr ()) (Inl unavailable) =
     (page1\<lparr>showConfirmDialog := False,
            assignmentMessage :=
              Some \<lparr>m_type = error,
                    m_text = ''Service temporarily unavailable. Please try again later.''\<rparr>\<rparr>,
      [UpdateDoc ''bookings'' ''b1''
         [(''technicianId'', VStr ''t1''), (''status'', VStr ''assigned'')],
       GetDoc ''technicians'' ''t1'',
       SetTimeout ClearAssignmentMessage 5000])"
    by (simp add: handleAssign_def handleAssign_enter_def handleAssign_updated_def
        handleAssign_fetched_def handleAssign_catch_def handleAssign_finally_def
        assignErrorMessage_def assignFields_def unavailable_def page1_def page0_def
        booking0_def tech1_def Let_def)
  show ?thesis
    unfolding run by (simp add: page1_def page0_def booking0_def)
qed

text \<open>
  Claim C2. A confirmed assignment on a booking without a technician whose write faults:
  the handler ends with the page as it was before the attempt but for the dialog (closed),
  the message (the error message of the fault), the single-flight flag (cleared) and the
  technician detail view (cleared). The booking is the booking of before: its technician
  is none again and its status was never the optimistic one. The calls issued are the
  write and the timer of the message.
\<close>

theorem assign_failure_rollback:
  assumes "booking s = Some b" and "technicianId b = None" and "selectedTechnicianId s \<noteq> []"
  shows "handleAssign s (Inl e) fetched =
           (s\<lparr>isAssigning := False,
               assignmentMessage := Some \<lparr>m_type = error, m_text = assignErrorMessage e\<rparr>,
               showConfirmDialog := False, technician := None\<rparr>,
            [UpdateDoc ''bookings'' (bookingId s)
               [(''technicianId'', VStr (selectedTechnicianId s)),
                (''status'', VStr ''assigned'')],
             SetTimeout ClearAssignmentMessage 5000])
         \<and> booking (fst (handleAssign s (Inl e) fetched)) = Some b
         \<and> technician (fst (handleAssign s (Inl e) fetched)) = None"
proof -
  have b: "b\<lparr>technicianId := None, status := status b\<rparr> = b"
    using assms(2) by simp
  have nt: "\<not> truthy (technicianId b)"
    using assms(2) by simp
  have run: "handleAssign s (Inl e) fetched =
           (s\<lparr>isAssigning := False,
               assignmentMessage := Some \<lparr>m_type = error, m_text = assignErrorMessage e\<rparr>,
               showConfirmDialog := False, technician := None\<rparr>,
            [UpdateDoc ''bookings'' (bookingId s)
               [(''technicianId'', VStr (selectedTechnicianId s)),
                (''status'', VStr ''assigned'')],
             SetTimeout ClearAssignmentMessage 5000])"
    using assms(1) b
    by (simp add: handleAssign_def handleAssign_enter_unassigned [OF assms(1) nt assms(3)]
        handleAssign_updated_def handleAssign_catch_def handleAssign_finally_def Let_def)
  show ?thesis
    unfolding run using assms(1) by simp
qed

theorem assign_failure_rollback_witness:
  "booking page1 = Some booking0 \<and> technicianId booking0 = None
   \<and> selectedTechnicianId page1 \<noteq> []
   \<and> handleAssign page1 (Inl \<lparr>code = Some ''permission-denied'', message = None\<rparr>)
        (Inr (Some tech1_doc)) =
       (page1\<lparr>showConfirmDialog := False,
              assignmentMessage :=
                Some \<lparr>m_type = error,
                      m_text = ''Permission denied. Please check your access rights.''\<rparr>\<rparr>,
        [UpdateDoc ''bookings'' ''b1''
           [(''technicianId'', VStr ''t1''), (''status'', VStr ''assigned'')],
         SetTimeout ClearAssignmentMessage 5000])"
proof -
  have h1: "booking page1 = Some booking0" and h2: "technicianId booking0 = None"
    and h3: "selectedTechnicianId page1 \<noteq> []"
    by (simp_all add: page1_def page0_def booking0_def)
  show ?thesis
    using h1 h2 h3
      assign_failure_rollback [OF h1 h2 h3,
        of "\<lparr>code = Some ''permission-denied'', message = None\<rparr>" "Inr (Some tech1_doc)"]
    by (simp add: assignErrorMessage_def page1_def page0_def)
qed

text \<open>
  Claim C4. When the assignment is attempted with the booking's technician already set
  (a \<open>technicianId\<close> that is neither null nor empty, as the guard reads it), or with no
  technician selected, both handlers return at their guard: no write and no other call is
  issued, the page state is the same afterwards, and so no message is set.
\<close>

theorem assign_noop:
  assumes "selectedTechnicianId s = [] \<or> bookingAssigned s"
  shows "handleAssignClick s = s \<and> handleAssign_enter s = None
         \<and> handleAssign s upd fetched = (s, [])"
  using assms
  by (auto simp: handleAssignClick_def handleAssign_enter_def handleAssign_def
      bookingAssigned_def split: option.splits)

theorem assign_noop_witness:
  "(selectedTechnicianId page0 = [] \<or> bookingAssigned page0)
   \<and> handleAssignClick page0 = page0 \<and> handleAssign_enter page0 = None
   \<and> handleAssign page0 (Inr ()) (Inr (Some tech1_doc)) = (page0, [])"
  using assign_noop [of page0 "Inr ()" "Inr (Some tech1_doc)"]
  by (simp add: page0_def)

text \<open>
  Claim C8. The one write of a confirmed assignment is an update of the booking's document
  with the two fields \<open>technicianId\<close> and \<open>status\<close>; whatever the backend answers, the
  handler issues no other write; and the update leaves every other field of the stored
  document as it was, among them serviceId, customerName, customerPhone, customerAddress,
  createdAt, scheduledAt and notes.
\<close>

theorem assign_write_frame:
  assumes "handleAssign_enter s = Some (s1, c, w)"
  shows "w = UpdateDoc ''bookings'' (bookingId s)
               [(''technicianId'', VStr (selectedTechnicianId s)), (''status'', VStr ''assigned'')]
         \<and> filter isWrite (snd (handleAssign s upd fetched)) = [w]
         \<and> (f \<notin> {''technicianId'', ''status''} \<longrightarrow>
              updateDoc d [(''technicianId'', VStr (selectedTechnicianId s)),
                           (''status'', VStr ''assigned'')] f = d f)"
proof -
  obtain b where b: "booking s = Some b" "\<not> truthy (technicianId b)"
    "selectedTechnicianId s \<noteq> []"
    using handleAssign_enter_Some [OF assms] by blast
  note en = handleAssign_enter_unassigned [OF b]
  have w: "w = UpdateDoc ''bookings'' (bookingId s)
               [(''technicianId'', VStr (selectedTechnicianId s)), (''status'', VStr ''assigned'')]"
    using assms en by simp
  have one: "filter isWrite (snd (handleAssign s upd fetched)) = [w]"
    unfolding w
    by (cases upd; cases fetched)
      (simp_all add: handleAssign_def en handleAssign_updated_def handleAssign_fetched_def
        handleAssign_catch_def handleAssign_assigned_def handleAssign_finally_def Let_def
        split: option.splits)
  have frame: "f \<notin> {''technicianId'', ''status''} \<longrightarrow>
              updateDoc d [(''technicianId'', VStr (selectedTechnicianId s)),
                           (''status'', VStr ''assigned'')] f = d f"
    by (auto simp: updateDoc_def map_add_def)
  show ?thesis using w one frame by blast
qed

theorem assign_write_frame_witness:
  "handleAssign_enter page1 =
     Some (page1\<lparr>isAssigning := True, showConfirmDialog := False,
                 booking := Some (booking0\<lparr>technicianId := Some ''t1'', status := ''assigned''\<rparr>)\<rparr>,
           \<lparr>c_booking = booking0, c_selectedTechnicianId = ''t1'',
            c_selectedTechnician = Some tech1\<rparr>,
           UpdateDoc ''bookings'' ''b1''
             [(''technicianId'', VStr ''t1''), (''status'', VStr ''assigned'')])
   \<and> filter isWrite (snd (handleAssign page1 (Inr ()) (Inr (Some tech1_doc)))) =
       [UpdateDoc ''bookings'' ''b1''
          [(''technicianId'', VStr ''t1''), (''status'', VStr ''assigned'')]]
   \<and> ''customerName'' \<notin> {''technicianId'', ''status''}
   \<and> updateDoc [''customerName'' \<mapsto> VStr ''Ravi'', ''status'' \<mapsto> VStr ''pending'']
        [(''technicianId'', VStr (selectedTechnicianId page1)), (''status'', VStr ''assigned'')]
        ''customerName'' = Some (VStr ''Ravi'')"
proof -
  have n: "''customerName'' \<notin> {''technicianId'', ''status''}"
    by simp
  show ?thesis
    using n page1_enter
      assign_write_frame [OF page1_enter, of "Inr ()" "Inr (Some tech1_doc)" "''customerName''"
        "[''customerName'' \<mapsto> VStr ''Ravi'', ''status'' \<mapsto> VStr ''pending'']"]
    by simp
qed

section \<open>Single flight and the confirmation gate\<close>

lemma dispatch_blocked: "isAssigning s \<Longrightarrow> dispatch s e = (s, [])"
  by (cases e) simp_all

lemma run_user_blocked: "isAssigning s \<Longrightarrow> run_user s es = (s, [])"
  by (induction es) (simp_all add: dispatch_blocked)

lemma dispatch_effects:
  "dispatch s e = (s1, out) \<Longrightarrow>
   out = [] \<or> (e = ClickConfirm \<and> showConfirmDialog s \<and> \<not> isAssigning s \<and> isAssigning s1
               \<and> (\<exists>w. out = [w] \<and> isWrite w))"
  by (cases e)
    (auto simp: confirmDialogRendered_def dest: handleAssign_enter_flag
      split: if_splits option.splits)

lemma run_user_writes: "length (filter isWrite (snd (run_user s es))) \<le> 1"
proof (induction es arbitrary: s)
  case Nil
  show ?case by simp
next
  case (Cons e es)
  obtain s1 out where d: "dispatch s e = (s1, out)"
    by (cases "dispatch s e")
  from dispatch_effects [OF d] show ?case
  proof
    assume "out = []"
    then show ?thesis
      using d Cons.IH [of s1] by (simp split: prod.splits)
  next
    assume a: "e = ClickConfirm \<and> showConfirmDialog s \<and> \<not> isAssigning s \<and> isAssigning s1
               \<and> (\<exists>w. out = [w] \<and> isWrite w)"
    then have "run_user s1 es = (s1, [])"
      by (simp add: run_user_blocked)
    then show ?thesis
      using d a by auto
  qed
qed

lemma dispatch_opens:
  "dispatch s e = (s1, out) \<Longrightarrow> \<not> showConfirmDialog s \<Longrightarrow> showConfirmDialog s1
   \<Longrightarrow> e = ClickAssign"
  by (cases e) (auto simp: confirmDialogRendered_def split: if_splits option.splits)

lemma run_user_confirm: "snd (run_user s es) \<noteq> [] \<Longrightarrow> ClickConfirm \<in> set es"
proof (induction es arbitrary: s)
  case Nil
  then show ?case by simp
next
  case (Cons e es)
  obtain s1 out where d: "dispatch s e = (s1, out)"
    by (cases "dispatch s e")
  show ?case
  proof (cases "out = []")
    case True
    then have "snd (run_user s1 es) \<noteq> []"
      using Cons.prems d by (simp split: prod.splits)
    then show ?thesis
      using Cons.IH by simp
  next
    case False
    then show ?thesis
      using dispatch_effects [OF d] by simp
  qed
qed

lemma run_user_gate:
  "\<not> showConfirmDialog s \<Longrightarrow> snd (run_user s es) \<noteq> [] \<Longrightarrow>
   \<exists>es1 es2 es3. es = es1 @ ClickAssign # es2 @ ClickConfirm # es3"
proof (induction es arbitrary: s)
  case Nil
  then show ?case by simp
next
  case (Cons e es)
  obtain s1 out where d: "dispatch s e = (s1, out)"
    by (cases "dispatch s e")
  have out: "out = []"
    using dispatch_effects [OF d] Cons.prems(1) by auto
  then have rest: "snd (run_user s1 es) \<noteq> []"
    using Cons.prems(2) d by (simp split: prod.splits)
  show ?case
  proof (cases "showConfirmDialog s1")
    case False
    from Cons.IH [OF False rest] obtain es1 es2 es3
      where "es = es1 @ ClickAssign # es2 @ ClickConfirm # es3"
      by blast
    then have "e # es = (e # es1) @ ClickAssign # es2 @ ClickConfirm # es3"
      by simp
    then show ?thesis by blast
  next
    case True
    then have e: "e = ClickAssign"
      using dispatch_opens [OF d Cons.prems(1)] by simp
    from run_user_confirm [OF rest] obtain es2 es3 where "es = es2 @ ClickConfirm # es3"
      by (auto simp: in_set_conv_decomp)
    then have "e # es = [] @ ClickAssign # es2 @ ClickConfirm # es3"
      using e by simp
    then show ?thesis by blast
  qed
qed

lemma dispatch_dismiss:
  "e \<in> {ClickCancel, ClickBackdrop} \<Longrightarrow>
   snd (dispatch s e) = []
   \<and> (fst (dispatch s e))\<lparr>showConfirmDialog := showConfirmDialog s\<rparr> = s
   \<and> selectedTechnicianId (fst (dispatch s e)) = selectedTechnicianId s"
  by auto

lemma page1_events:
  "run_user page1 [ClickConfirm, ClickConfirm, ClickAssign, ClickConfirm] =
     (page1\<lparr>isAssigning := True, showConfirmDialog := False,
            booking := Some (booking0\<lparr>technicianId := Some ''t1'', status := ''assigned''\<rparr>)\<rparr>,
      [UpdateDoc ''bookings'' ''b1''
         [(''technicianId'', VStr ''t1''), (''status'', VStr ''assigned'')]])"
proof -
  have r: "confirmDialogRendered page1 \<and> \<not> isAssigning page1"
    by (simp add: confirmDialogRendered_def mainRendered_def page1_def page0_def)
  have a: "isAssigning (page1\<lparr>isAssigning := True, showConfirmDialog := False,
            booking := Some (booking0\<lparr>technicianId := Some ''t1'', status := ''assigned''\<rparr>)\<rparr>)"
    by simp
  show ?thesis
    using r by (simp add: page1_enter run_user_blocked [OF a])
qed

text \<open>
  Claim C3. Whatever the operator does on the page between two completions (selecting,
  Assign, Confirm, Cancel, clicks on the backdrop, in any order and number), at most one
  write is issued. The flag does it: while \<open>isAssigning\<close> holds no event changes the state or
  issues a call; the handler sets the flag when it enters the write, so that nothing
  follows that write; and each way the handler completes clears the flag.
\<close>

theorem single_flight:
  "length (filter isWrite (snd (run_user s es))) \<le> 1
   \<and> (isAssigning s \<longrightarrow> run_user s es = (s, []))
   \<and> (handleAssign_enter s = Some (s1, c, w) \<longrightarrow> isAssigning s1 \<and> run_user s1 es = (s1, []))
   \<and> \<not> isAssigning (fst (handleAssign_fetched c' r s'))
   \<and> \<not> isAssigning (fst (fst (handleAssign_updated c' (Inl e) s')))"
  using run_user_writes [of s es] run_user_blocked [of s es] run_user_blocked [of s1 es]
    handleAssign_enter_flag [of s s1 c w] handleAssign_completion_flag
  by blast

theorem single_flight_witness:
  "handleAssign_enter page1 =
     Some (page1\<lparr>isAssigning := True, showConfirmDialog := False,
                 booking := Some (booking0\<lparr>technicianId := Some ''t1'', status := ''assigned''\<rparr>)\<rparr>,
           \<lparr>c_booking = booking0, c_selectedTechnicianId = ''t1'',
            c_selectedTechnician = Some tech1\<rparr>,
           UpdateDoc ''bookings'' ''b1''
             [(''technicianId'', VStr ''t1''), (''status'', VStr ''assigned'')])
   \<and> isAssigning (page1\<lparr>isAssigning := True, showConfirmDialog := False,
                 booking := Some (booking0\<lparr>technicianId := Some ''t1'', status := ''assigned''\<rparr>)\<rparr>)
   \<and> run_user (page1\<lparr>isAssigning := True, showConfirmDialog := False,
                 booking := Some (booking0\<lparr>technicianId := Some ''t1'', status := ''assigned''\<rparr>)\<rparr>)
        [ClickConfirm, ClickAssign, ClickConfirm]
       = (page1\<lparr>isAssigning := True, showConfirmDialog := False,
                 booking := Some (booking0\<lparr>technicianId := Some ''t1'', status := ''assigned''\<rparr>)\<rparr>,
          [])
   \<and> length (filter isWrite
        (snd (run_user page1 [ClickConfirm, ClickConfirm, ClickAssign, ClickConfirm]))) = 1"
proof -
  let ?s1 = "page1\<lparr>isAssigning := True, showConfirmDialog := False,
                 booking := Some (booking0\<lparr>technicianId := Some ''t1'', status := ''assigned''\<rparr>)\<rparr>"
  have a: "isAssigning ?s1"
    by simp
  show ?thesis
    using a page1_enter page1_events
      single_flight [of ?s1 "[ClickConfirm, ClickAssign, ClickConfirm]"]
      single_flight [of page1 "[ClickConfirm, ClickAssign, ClickConfirm]" ?s1]
    by simp
qed

text \<open>
  Claim C7. Selecting a technician issues no call and changes nothing but the staged
  selection. Dismissing the dialog, by Cancel or by a click on the backdrop, issues no
  call, changes nothing but the dialog flag and so keeps the staged selection. An event
  that issues a call is a Confirm with the dialog open; and from a page whose dialog is
  closed, a run of events that issues a call has an Assign click and, later, a Confirm.
\<close>

theorem confirmation_gate:
  "snd (dispatch s (SelectTechnician v)) = []
   \<and> (fst (dispatch s (SelectTechnician v)))\<lparr>selectedTechnicianId := selectedTechnicianId s\<rparr> = s
   \<and> (\<forall>x \<in> {ClickCancel, ClickBackdrop}.
         snd (dispatch s x) = []
         \<and> (fst (dispatch s x))\<lparr>showConfirmDialog := showConfirmDialog s\<rparr> = s
         \<and> selectedTechnicianId (fst (dispatch s x)) = selectedTechnicianId s)
   \<and> (snd (dispatch s e) \<noteq> [] \<longrightarrow> e = ClickConfirm \<and> showConfirmDialog s)
   \<and> (\<not> showConfirmDialog s \<and> snd (run_user s es) \<noteq> [] \<longrightarrow>
         (\<exists>es1 es2 es3. es = es1 @ ClickAssign # es2 @ ClickConfirm # es3))"
proof -
  have sel: "snd (dispatch s (SelectTechnician v)) = []
     \<and> (fst (dispatch s (SelectTechnician v)))\<lparr>selectedTechnicianId := selectedTechnicianId s\<rparr> = s"
    by simp
  have step: "snd (dispatch s e) \<noteq> [] \<longrightarrow> e = ClickConfirm \<and> showConfirmDialog s"
    using dispatch_effects [of s e "fst (dispatch s e)" "snd (dispatch s e)"] by auto
  show ?thesis
    using sel dispatch_dismiss [of _ s] step run_user_gate [of s es]
    by blast
qed

lemma page0_events:
  "run_user page0 [SelectTechnician ''t1'', ClickAssign, ClickConfirm] =
     (page1\<lparr>isAssigning := True, showConfirmDialog := False,
            booking := Some (booking0\<lparr>technicianId := Some ''t1'', status := ''assigned''\<rparr>)\<rparr>,
      [UpdateDoc ''bookings'' ''b1''
         [(''technicianId'', VStr ''t1''), (''status'', VStr ''assigned'')]])"
  by (simp add: page1_def page0_def booking0_def tech1_def assignSectionRendered_def
      mainRendered_def bookingAssigned_def confirmDialogRendered_def handleAssignClick_def
      handleAssign_enter_def assignFields_def Let_def)

theorem confirmation_gate_witness:
  "dispatch page1 ClickConfirm =
     (page1\<lparr>isAssigning := True, showConfirmDialog := False,
            booking := Some (booking0\<lparr>technicianId := Some ''t1'', status := ''assigned''\<rparr>)\<rparr>,
      [UpdateDoc ''bookings'' ''b1''
         [(''technicianId'', VStr ''t1''), (''status'', VStr ''assigned'')]])
   \<and> showConfirmDialog page1
   \<and> dispatch page1 ClickCancel = (page1\<lparr>showConfirmDialog := False\<rparr>, [])
   \<and> dispatch page1 ClickBackdrop = (page1\<lparr>showConfirmDialog := False\<rparr>, [])
   \<and> selectedTechnicianId (fst (dispatch page1 ClickBackdrop)) = ''t1''
   \<and> \<not> showConfirmDialog page0
   \<and> snd (run_user page0 [SelectTechnician ''t1'', ClickAssign, ClickConfirm]) \<noteq> []
   \<and> (\<exists>es1 es2 es3. [SelectTechnician ''t1'', ClickAssign, ClickConfirm]
         = es1 @ ClickAssign # es2 @ ClickConfirm # es3)"
proof -
  have r: "confirmDialogRendered page1 \<and> \<not> isAssigning page1 \<and> showConfirmDialog page1
           \<and> selectedTechnicianId page1 = ''t1''"
    by (simp add: confirmDialogRendered_def mainRendered_def page1_def page0_def)
  have c: "dispatch page1 ClickConfirm =
     (page1\<lparr>isAssigning := True, showConfirmDialog := False,
            booking := Some (booking0\<lparr>technicianId := Some ''t1'', status := ''assigned''\<rparr>)\<rparr>,
      [UpdateDoc ''bookings'' ''b1''
         [(''technicianId'', VStr ''t1''), (''status'', VStr ''assigned'')]])"
    using r by (simp add: page1_enter)
  have d: "dispatch page1 ClickCancel = (page1\<lparr>showConfirmDialog := False\<rparr>, [])"
    "dispatch page1 ClickBackdrop = (page1\<lparr>showConfirmDialog := False\<rparr>, [])"
    using r by simp_all
  have n: "\<not> showConfirmDialog page0"
    by (simp add: page0_def)
  have w: "snd (run_user page0 [SelectTechnician ''t1'', ClickAssign, ClickConfirm]) \<noteq> []"
    unfolding page0_events by simp
  have g: "\<exists>es1 es2 es3. [SelectTechnician ''t1'', ClickAssign, ClickConfirm]
         = es1 @ ClickAssign # es2 @ ClickConfirm # es3"
    using n w
      confirmation_gate [of page0 "''t1''" ClickConfirm
        "[SelectTechnician ''t1'', ClickAssign, ClickConfirm]"]
    by blast
  have k: "selectedTechnicianId (fst (dispatch page1 ClickBackdrop)) = ''t1''"
    using r confirmation_gate [of page1 "''t1''" ClickConfirm "[]"] by simp
  show ?thesis
    using c r d k n w g by blast
qed

section \<open>Properties of the session guard and of the login form\<close>

text \<open>
  Claim C5, as stated, fails on the guard: for a session whose profile document is missing
  the guard redirects to the login screen and issues no sign-out.
\<close>

theorem guard_no_signout_counterexample:
  "authorizationFault None
   \<and> snd (authCallback guard_init True (Some ''u1'') (Inr None) True)
       = [GetDoc ''users'' ''u1'', RouterPush ''/login'']
   \<and> SignOut \<notin> set (snd (authCallback guard_init True (Some ''u1'') (Inr None) True))"
  by (simp add: authCallback_def guard_init_def checked_redirect_def authorizationFault_def)

text \<open>
  Claim C5, amended. For every authorization fault (profile missing, or role not admin):
  the login form, after a sign-in that succeeded, issues the sign-out and no navigation,
  and when the sign-out succeeds it shows the access-denied message of the case and is no
  longer loading; the guard of a mounted layout ends its check, redirects to the login
  screen, leaves \<open>isAuthorized\<close> as it was and issues no sign-out.
\<close>

theorem authorization_fault_outcome:
  assumes "authorizationFault userDoc" and "email s \<noteq> []" and "password s \<noteq> []"
  shows "snd (LoginPage_handleSubmit s (Inr uid) (Inr userDoc) signedOut)
           = [SignIn (email s) (password s), GetDoc ''users'' uid, SignOut]
         \<and> (signedOut = Inr () \<longrightarrow>
              fst (LoginPage_handleSubmit s (Inr uid) (Inr userDoc) signedOut)
                = s\<lparr>lp_loading := False,
                     lp_error := Some (if userDoc = None
                                       then ''Access denied. User account not found.''
                                       else ''Access denied. Admin privileges required.'')\<rparr>)
         \<and> authCallback g True (Some uid) (Inr userDoc) True
             = (g\<lparr>g_loading := False, authChecked := True\<rparr>,
                [GetDoc ''users'' uid, RouterPush ''/login''])"
  using assms
  by (cases userDoc)
    (auto simp: LoginPage_handleSubmit_def login_deny_def authCallback_def checked_redirect_def
      authorizationFault_def Let_def)

theorem authorization_fault_outcome_witness:
  "authorizationFault (Some customer_profile) \<and> email login0 \<noteq> [] \<and> password login0 \<noteq> []
   \<and> LoginPage_handleSubmit login0 (Inr ''u2'') (Inr (Some customer_profile)) (Inr ())
       = (login0\<lparr>lp_error := Some ''Access denied. Admin privileges required.''\<rparr>,
          [SignIn ''c@example.org'' ''secret'', GetDoc ''users'' ''u2'', SignOut])
   \<and> authCallback guard_init True (Some ''u2'') (Inr (Some customer_profile)) True
       = (\<lparr>g_loading = False, isAuthorized = False, authChecked = True\<rparr>,
          [GetDoc ''users'' ''u2'', RouterPush ''/login''])"
proof -
  have h: "authorizationFault (Some customer_profile)"
    by (simp add: authorizationFault_def isAdmin_def customer_profile_def)
  have e: "email login0 \<noteq> []" and p: "password login0 \<noteq> []"
    by (simp_all add: login0_def)
  show ?thesis
    using h e p authorization_fault_outcome [OF h e p, of "''u2''" "Inr ()" guard_init]
    by (simp add: login0_def guard_init_def prod_eq_iff)
qed

text \<open>
  On a guard that is not yet authorized, one notification ends authorized exactly when
  the layout is mounted throughout, there is a session, and the fetched profile exists
  with the role admin: every fault of the first check leaves \<open>isAuthorized\<close> false.
\<close>

lemma guard_first_check:
  assumes "\<not> isAuthorized g"
  shows "isAuthorized (fst (authCallback g mounted user fetched mounted'))
           \<longleftrightarrow> mounted \<and> mounted' \<and> user \<noteq> None
               \<and> (\<exists>userData. fetched = Inr (Some userData) \<and> isAdmin userData)"
  using assms
  by (auto simp: authCallback_def checked_redirect_def Let_def split: option.splits sum.splits)

text \<open>
  Claim C6. No branch of the callback ever clears \<open>isAuthorized\<close>. After a notification for
  an admin's session, a notification whose role check faults (here: the session of a user
  whose role is customer; and: a profile fetch that is rejected) ends with
  \<open>isAuthorized\<close> still true, the check marked complete and loading over, so that the
  protected content is rendered.
\<close>

theorem guard_stays_authorized:
  "runGuard guard_init
     [(Some ''u1'', Inr (Some admin_profile)), (Some ''u2'', Inr (Some customer_profile))]
     = \<lparr>g_loading = False, isAuthorized = True, authChecked = True\<rparr>
   \<and> rendersChildren (runGuard guard_init
        [(Some ''u1'', Inr (Some admin_profile)), (Some ''u2'', Inr (Some customer_profile))])
   \<and> runGuard guard_init [(Some ''u1'', Inr (Some admin_profile)), (Some ''u1'', Inl unavailable)]
     = \<lparr>g_loading = False, isAuthorized = True, authChecked = True\<rparr>
   \<and> rendersChildren (runGuard guard_init
        [(Some ''u1'', Inr (Some admin_profile)), (Some ''u1'', Inl unavailable)])"
  by (simp add: authCallback_def guard_init_def checked_redirect_def isAdmin_def
      admin_profile_def customer_profile_def rendersChildren_def)

theorem guard_stays_authorized_witness:
  "isAuthorized (runGuard guard_init
        [(Some ''u1'', Inr (Some admin_profile)), (Some ''u2'', Inr (Some customer_profile))])
   \<and> rendersChildren (runGuard guard_init
        [(Some ''u1'', Inr (Some admin_profile)), (Some ''u2'', Inr (Some customer_profile))])
   \<and> isAuthorized (runGuard guard_init
        [(Some ''u1'', Inr (Some admin_profile)), (Some ''u1'', Inl unavailable)])"
  using guard_stays_authorized by (simp add: rendersChildren_def del: runGuard.simps)

text \<open>
  Claim C9, as stated, fails: a sign-in fault with the unmapped code
  \<open>auth/network-request-failed\<close> and a message puts that raw message on the form, not the
  generic fallback.
\<close>

theorem unmapped_fault_raw_message_counterexample:
  "code network_failed \<notin> Some ` set mappedCodes
   \<and> lp_error (fst (LoginPage_handleSubmit login0 (Inl network_failed) (Inr None) (Inr ())))
       = Some ''Firebase: Error (auth/network-request-failed).''
   \<and> lp_error (fst (LoginPage_handleSubmit login0 (Inl network_failed) (Inr None) (Inr ())))
       \<noteq> Some ''Failed to sign in. Please try again.''"
  by (simp add: LoginPage_handleSubmit_def login_catch_def loginErrorMessage_def login0_def
      network_failed_def mappedCodes_def)

text \<open>
  Claim C9, amended. For every sign-in fault whose code is none of the five mapped codes,
  the message shown is the fault's own message when it has a non-empty one, and the
  generic fallback otherwise; it is a string in both cases, and nothing else is called.
\<close>

theorem unmapped_fault_message:
  assumes "code e \<notin> Some ` set mappedCodes" and "email s \<noteq> []" and "password s \<noteq> []"
  shows "LoginPage_handleSubmit s (Inl e) fetched signedOut
           = (s\<lparr>lp_loading := False,
                lp_error := Some (case message e of
                                    None \<Rightarrow> ''Failed to sign in. Please try again.''
                                  | Some m \<Rightarrow>
                                      if m = [] then ''Failed to sign in. Please try again.''
                                      else m)\<rparr>,
              [SignIn (email s) (password s)])"
  using assms
  by (auto simp: LoginPage_handleSubmit_def login_catch_def loginErrorMessage_def mappedCodes_def
      Let_def)

theorem unmapped_fault_message_witness:
  "code \<lparr>code = Some ''auth/internal-error'', message = None\<rparr> \<notin> Some ` set mappedCodes
   \<and> email login0 \<noteq> [] \<and> password login0 \<noteq> []
   \<and> LoginPage_handleSubmit login0 (Inl \<lparr>code = Some ''auth/internal-error'', message = None\<rparr>)
         (Inr None) (Inr ())
       = (login0\<lparr>lp_error := Some ''Failed to sign in. Please try again.''\<rparr>,
          [SignIn ''c@example.org'' ''secret''])"
proof -
  have c: "code \<lparr>code = Some ''auth/internal-error'', message = None\<rparr> \<notin> Some ` set mappedCodes"
    by (simp add: mappedCodes_def)
  have e: "email login0 \<noteq> []" and p: "password login0 \<noteq> []"
    by (simp_all add: login0_def)
  show ?thesis
    using c e p unmapped_fault_message [OF c e p, of "Inr None" "Inr ()"]
    by (simp add: login0_def)
qed

section \<open>Properties of the service form\<close>

lemma edit_writes:
  assumes "editingServiceId s = Some eid" and "eid \<noteq> []"
  shows "filter isWrite (snd (ServicesPage_handleSubmit pfl pin now s written listed)) =
           (if trim (title (formData s)) = []
               \<or> price (formData s) = [] \<or> le0 (pfl (price (formData s)))
               \<or> duration (formData s) = [] \<or> le0 (pin (duration (formData s)))
            then []
            else [UpdateDoc ''services'' eid (serviceData pfl pin (formData s))])"
  using assms
  by (cases written; cases listed)
    (simp_all add: ServicesPage_handleSubmit_def showToast_def fetchServices_def Let_def)

lemma applyServiceData_isActive:
  "svc_isActive (applyServiceData pfl pin fd eid sv) = svc_isActive sv"
  by (simp add: applyServiceData_def)

lemma edit_local_isActive:
  assumes "editingServiceId s = Some eid" and "eid \<noteq> []"
  shows "map svc_isActive
           (services (fst (ServicesPage_handleSubmit pfl pin now s (Inr ()) listed)))
           = map svc_isActive (services s)"
  using assms
  by (simp add: ServicesPage_handleSubmit_def showToast_def handleCloseModal_def Let_def
      applyServiceData_isActive comp_def)

text \<open>
  Claim C10. Submitting the form for an existing service issues, when the form passes its
  validation, one write: an update of that service's document with the four fields title,
  category, price and duration (and no write when the form is rejected). The update leaves
  every other stored field as it was, \<open>isActive\<close> and \<open>createdAt\<close> among them; and after a
  successful edit the listed services have the \<open>isActive\<close> flags of before, so a disabled
  service stays disabled.
\<close>

theorem service_edit_frame:
  assumes "editingServiceId s = Some eid" and "eid \<noteq> []"
  shows "filter isWrite (snd (ServicesPage_handleSubmit pfl pin now s written listed)) =
           (if trim (title (formData s)) = []
               \<or> price (formData s) = [] \<or> le0 (pfl (price (formData s)))
               \<or> duration (formData s) = [] \<or> le0 (pin (duration (formData s)))
            then []
            else [UpdateDoc ''services'' eid (serviceData pfl pin (formData s))])
         \<and> map fst (serviceData pfl pin (formData s))
             = [''title'', ''category'', ''price'', ''duration'']
         \<and> (f \<notin> {''title'', ''category'', ''price'', ''duration''} \<longrightarrow>
              updateDoc d (serviceData pfl pin (formData s)) f = d f)
         \<and> updateDoc d (serviceData pfl pin (formData s)) ''isActive'' = d ''isActive''
         \<and> updateDoc d (serviceData pfl pin (formData s)) ''createdAt'' = d ''createdAt''
         \<and> map svc_isActive
             (services (fst (ServicesPage_handleSubmit pfl pin now s (Inr ()) listed)))
             = map svc_isActive (services s)"
proof -
  have names: "map fst (serviceData pfl pin (formData s))
                 = [''title'', ''category'', ''price'', ''duration'']"
    by (simp add: serviceData_def)
  have frame: "updateDoc d (serviceData pfl pin (formData s)) x = d x"
    if "x \<notin> {''title'', ''category'', ''price'', ''duration''}" for x
    using that by (auto simp: updateDoc_def serviceData_def map_add_def)
  have a: "updateDoc d (serviceData pfl pin (formData s)) ''isActive'' = d ''isActive''"
    by (rule frame) simp
  have c: "updateDoc d (serviceData pfl pin (formData s)) ''createdAt'' = d ''createdAt''"
    by (rule frame) simp
  show ?thesis
    using edit_writes [OF assms] names frame [of f] a c edit_local_isActive [OF assms]
    by blast
qed

theorem service_edit_frame_witness:
  "editingServiceId services_page0 = Some ''sv1'' \<and> ''sv1'' \<noteq> []
   \<and> filter isWrite
       (snd (ServicesPage_handleSubmit parse0 parse0 7 services_page0 (Inr ()) (Inr [])))
       = [UpdateDoc ''services'' ''sv1''
            [(''title'', VStr ''Tap repair''), (''category'', VStr ''plumbing''),
             (''price'', VNumber (Num 250)), (''duration'', VNumber (Num 45))]]
   \<and> ''isActive'' \<notin> {''title'', ''category'', ''price'', ''duration''}
   \<and> updateDoc [''isActive'' \<mapsto> VBool False, ''price'' \<mapsto> VNumber (Num 200)]
        (serviceData parse0 parse0 (formData services_page0)) ''isActive'' = Some (VBool False)
   \<and> map svc_isActive
        (services
          (fst (ServicesPage_handleSubmit parse0 parse0 7 services_page0 (Inr ()) (Inr []))))
       = [False]"
proof -
  have a: "editingServiceId services_page0 = Some ''sv1''" and b: "''sv1'' \<noteq> []"
    by (simp_all add: services_page0_def)
  have n: "''isActive'' \<notin> {''title'', ''category'', ''price'', ''duration''}"
    by simp
  have v: "trim ''Tap repair '' = ''Tap repair''"
    by (simp add: trim_def isSpace_def)
  show ?thesis
    using a b n
      service_edit_frame [OF a b, of parse0 parse0 7 "Inr ()" "Inr []" "''isActive''"
        "[''isActive'' \<mapsto> VBool False, ''price'' \<mapsto> VNumber (Num 200)]"]
    by (simp add: services_page0_def service1_def parse0_def serviceData_def v
        trim_def isSpace_def)
qed

end
